theory Spec2Isabelle
  imports Complex_Main
begin

section \<open>Data model\<close>

text \<open>
  The script \<^verbatim>\<open>analysis/fetch_and_process_players.py\<close> works on a pandas DataFrame.
  A DataFrame is modelled as the list of its rows (in index order), a column (a pandas
  Series) as the list of its values.  Floating-point numbers are idealised as \<^typ>\<open>real\<close>;
  the only non-finite value that the script itself can produce, NaN, is written \<open>None\<close>.

  A cell of one of the six statistic columns as fetched either holds a number or something
  that \<^verbatim>\<open>pd.to_numeric(..., errors="coerce")\<close> cannot read.  The player name is always a
  string and the games-played count always an integer, so these two columns never hold NaN.
\<close>

datatype cell = Num real | Malformed

text \<open>
  One row restricted to the eight columns of \<^verbatim>\<open>cols\<close>.  The type parameter is the type of
  the six statistic columns: \<^typ>\<open>cell\<close> as fetched, \<^typ>\<open>real option\<close> after the coercion
  loop, \<^typ>\<open>real\<close> after \<^verbatim>\<open>dropna\<close>.  The record scheme's extension stands for every other
  column of the fetched table.
\<close>

record 'c stat_row =
  PLAYER_NAME :: string
  GP :: int
  PTS :: 'c
  REB :: 'c
  AST :: 'c
  TOV :: 'c
  FG_PCT :: 'c
  FG3_PCT :: 'c

datatype tier = bust | role_player | star

text \<open>A row of \<^verbatim>\<open>out\<close>, the table written to \<^verbatim>\<open>players_processed.csv\<close>.\<close>

record processed_row =
  player_name :: string
  height_m :: real
  weight_kg :: real
  scoring :: real
  playmaking :: real
  discipline :: real
  luck_factor :: real
  tier :: tier

text \<open>The two files that \<^verbatim>\<open>main\<close> writes into \<^verbatim>\<open>data/\<close>; a CSV file is its table.\<close>

record 'm data_dir =
  players_raw_csv :: "(cell, 'm) stat_row_scheme list"
  players_processed_csv :: "processed_row list"

section \<open>The normalisation primitive\<close>

text \<open>
  \<^verbatim>\<open>(series - series.min()) / (series.max() - series.min() + 1e-9)\<close>.
  On the empty series \<^verbatim>\<open>min()\<close> and \<^verbatim>\<open>max()\<close> are NaN and the result is the empty series.
\<close>

definition norm_series :: "real list \<Rightarrow> real list" where
  "norm_series series =
     (if series = [] then []
      else map (\<lambda>v. (v - Min (set series)) /
                      (Max (set series) - Min (set series) + 1 / 1000000000)) series)"

section \<open>Quantiles and tiers\<close>

text \<open>
  \<^verbatim>\<open>Series.quantile(q)\<close> with the default linear interpolation: with the values sorted
  ascending and \<open>h = (n - 1) * q\<close>, the result lies between the values at positions
  \<open>\<lfloor>h\<rfloor>\<close> and \<open>\<lfloor>h\<rfloor> + 1\<close>, at the fraction \<open>h - \<lfloor>h\<rfloor>\<close>.  The quantile of the empty series
  is NaN.
\<close>

definition quantile :: "real \<Rightarrow> real list \<Rightarrow> real option" where
  "quantile q series =
     (if series = [] then None
      else let s = sort series;
               h = real (length s - 1) * q;
               lo = nat \<lfloor>h\<rfloor>;
               hi = min (lo + 1) (length s - 1)
           in Some (s ! lo + (h - real lo) * (s ! hi - s ! lo)))"

text \<open>Comparison with a threshold that may be NaN: every comparison with NaN is false.\<close>

fun le_nan :: "real \<Rightarrow> real option \<Rightarrow> bool" where
  "le_nan x None = False"
| "le_nan x (Some q) = (x \<le> q)"

fun ge_nan :: "real \<Rightarrow> real option \<Rightarrow> bool" where
  "ge_nan x None = False"
| "ge_nan x (Some q) = (x \<ge> q)"

text \<open>
  The closure \<^verbatim>\<open>tier_row\<close>; \<open>q_low\<close> and \<open>q_high\<close> are its captured variables and the
  last argument is \<^verbatim>\<open>row["impact_raw"]\<close>, the only entry of the row that it reads.
\<close>

definition tier_row :: "real option \<Rightarrow> real option \<Rightarrow> real \<Rightarrow> tier" where
  "tier_row q_low q_high impact =
     (if le_nan impact q_low then bust
      else if ge_nan impact q_high then star
      else role_player)"

section \<open>The pipeline of \<^verbatim>\<open>main\<close>\<close>

text \<open>\<^verbatim>\<open>df[cols].copy()\<close>: keep the eight named columns.\<close>

definition select_cols :: "(cell, 'm) stat_row_scheme \<Rightarrow> cell stat_row" where
  "select_cols r =
     \<lparr>PLAYER_NAME = PLAYER_NAME r, GP = GP r, PTS = PTS r, REB = REB r, AST = AST r,
      TOV = TOV r, FG_PCT = FG_PCT r, FG3_PCT = FG3_PCT r\<rparr>"

text \<open>\<^verbatim>\<open>df[df["GP"] >= 15].reset_index(drop=True)\<close>\<close>

definition gp_filter :: "cell stat_row list \<Rightarrow> cell stat_row list" where
  "gp_filter df = filter (\<lambda>r. GP r \<ge> 15) df"

text \<open>\<^verbatim>\<open>pd.to_numeric(..., errors="coerce")\<close> on one cell.\<close>

fun to_numeric :: "cell \<Rightarrow> real option" where
  "to_numeric (Num x) = Some x"
| "to_numeric Malformed = None"

text \<open>The loop over the six statistic columns, seen on one row.\<close>

definition coerce_row :: "cell stat_row \<Rightarrow> real option stat_row" where
  "coerce_row r =
     \<lparr>PLAYER_NAME = PLAYER_NAME r, GP = GP r,
      PTS = to_numeric (PTS r), REB = to_numeric (REB r), AST = to_numeric (AST r),
      TOV = to_numeric (TOV r), FG_PCT = to_numeric (FG_PCT r),
      FG3_PCT = to_numeric (FG3_PCT r)\<rparr>"

text \<open>
  \<^verbatim>\<open>df.dropna().reset_index(drop=True)\<close>: a row with NaN in any column is removed; the
  rows that stay hold numbers in all six statistic columns.
\<close>

definition notna_row :: "real option stat_row \<Rightarrow> real stat_row option" where
  "notna_row r =
     (case (PTS r, REB r, AST r, TOV r, FG_PCT r, FG3_PCT r) of
        (Some p, Some rb, Some a, Some t, Some fg, Some fg3) \<Rightarrow>
          Some \<lparr>PLAYER_NAME = PLAYER_NAME r, GP = GP r, PTS = p, REB = rb, AST = a,
                TOV = t, FG_PCT = fg, FG3_PCT = fg3\<rparr>
      | _ \<Rightarrow> None)"

definition dropna :: "real option stat_row list \<Rightarrow> real stat_row list" where
  "dropna df = List.map_filter notna_row df"

text \<open>The frame \<^verbatim>\<open>df\<close> after line 59, before any derived column is added.\<close>

definition surviving :: "(cell, 'm) stat_row_scheme list \<Rightarrow> real stat_row list" where
  "surviving raw = dropna (map coerce_row (gp_filter (map select_cols raw)))"

text \<open>The derived columns, each a Series over the surviving frame.\<close>

definition scoring_col :: "real stat_row list \<Rightarrow> real list" where
  "scoring_col df = norm_series (map (\<lambda>r. PTS r + 5 * FG_PCT r) df)"

definition playmaking_col :: "real stat_row list \<Rightarrow> real list" where
  "playmaking_col df = norm_series (map (\<lambda>r. AST r - 0.5 * TOV r) df)"

definition discipline_col :: "real stat_row list \<Rightarrow> real list" where
  "discipline_col df = norm_series (map (\<lambda>r. - TOV r) df)"

definition impact_raw_col :: "real stat_row list \<Rightarrow> real list" where
  "impact_raw_col df =
     map (\<lambda>i. 0.5 * (scoring_col df ! i) + 0.3 * (playmaking_col df ! i) +
               0.2 * (discipline_col df ! i)) [0..<length df]"

definition luck_factor_col :: "real stat_row list \<Rightarrow> real list" where
  "luck_factor_col df = norm_series (impact_raw_col df)"

definition tier_col :: "real stat_row list \<Rightarrow> tier list" where
  "tier_col df =
     (let q_low = quantile 0.2 (impact_raw_col df);
          q_high = quantile 0.8 (impact_raw_col df)
      in map (tier_row q_low q_high) (impact_raw_col df))"

text \<open>
  The constant height and weight columns, the final column selection and the renaming of
  \<^verbatim>\<open>PLAYER_NAME\<close>; the columns are aligned on the row index.
\<close>

definition out_rows :: "real stat_row list \<Rightarrow> processed_row list" where
  "out_rows df =
     map (\<lambda>i. \<lparr>player_name = PLAYER_NAME (df ! i), height_m = 2, weight_kg = 100,
               scoring = scoring_col df ! i, playmaking = playmaking_col df ! i,
               discipline = discipline_col df ! i, luck_factor = luck_factor_col df ! i,
               tier = tier_col df ! i\<rparr>) [0..<length df]"

text \<open>From the fetched table to the table \<^verbatim>\<open>out\<close>.\<close>

definition transform :: "(cell, 'm) stat_row_scheme list \<Rightarrow> processed_row list" where
  "transform raw = out_rows (surviving raw)"

text \<open>
  \<^verbatim>\<open>main\<close> after the fetch has returned the table \<open>fetched\<close>: the raw dump is written
  first, from the table as fetched, then the processed table.
\<close>

definition main :: "(cell, 'm) stat_row_scheme list \<Rightarrow> 'm data_dir" where
  "main fetched =
     \<lparr>players_raw_csv = fetched, players_processed_csv = transform fetched\<rparr>"

section \<open>Predicates and example tables used in the statements\<close>

text \<open>
  A fetched row all of whose six statistic cells are read by the coercion loop, that is, a
  row that \<^verbatim>\<open>dropna\<close> keeps.
\<close>

definition all_numeric :: "(cell, 'm) stat_row_scheme \<Rightarrow> bool" where
  "all_numeric r = (notna_row (coerce_row (select_cols r)) \<noteq> None)"

text \<open>A fetched table with one column besides the eight that the script selects.\<close>

record api_row = "cell stat_row" +
  TEAM :: string

definition player_a :: api_row where
  "player_a = \<lparr>PLAYER_NAME = ''A'', GP = 20, PTS = Num 10, REB = Num 5, AST = Num 3,
     TOV = Num 2, FG_PCT = Num 0.5, FG3_PCT = Num 0.3, TEAM = ''X''\<rparr>"

definition player_b :: api_row where
  "player_b = \<lparr>PLAYER_NAME = ''B'', GP = 30, PTS = Num 20, REB = Num 5, AST = Num 7,
     TOV = Num 1, FG_PCT = Num 0.4, FG3_PCT = Malformed, TEAM = ''Y''\<rparr>"

definition player_c :: api_row where
  "player_c = \<lparr>PLAYER_NAME = ''C'', GP = 5, PTS = Num 20, REB = Num 5, AST = Num 7,
     TOV = Num 1, FG_PCT = Num 0.4, FG3_PCT = Num 0.1, TEAM = ''X''\<rparr>"

definition player_d :: api_row where
  "player_d = \<lparr>PLAYER_NAME = ''D'', GP = 15, PTS = Num 25, REB = Num 5, AST = Num 1,
     TOV = Num 4, FG_PCT = Num 0.6, FG3_PCT = Num 0.1, TEAM = ''Z''\<rparr>"

definition example_table :: "api_row list" where
  "example_table = [player_a, player_b, player_c, player_d]"

definition single_row_table :: "api_row list" where
  "single_row_table = [player_a]"

definition games_10 :: api_row where
  "games_10 = player_a\<lparr>PLAYER_NAME := ''G10'', GP := 10\<rparr>"

definition games_20 :: api_row where
  "games_20 = player_b\<lparr>PLAYER_NAME := ''G20'', GP := 20, FG3_PCT := Num 0.35\<rparr>"

definition games_30 :: api_row where
  "games_30 = player_d\<lparr>PLAYER_NAME := ''G30'', GP := 30\<rparr>"

definition numeric_table :: "api_row list" where
  "numeric_table = [player_a, player_c, player_d]"

definition numeric_table_variant :: "api_row list" where
  "numeric_table_variant =
     [player_a\<lparr>REB := Num 11, FG3_PCT := Num 0.9\<rparr>,
      player_c\<lparr>REB := Num 0, FG3_PCT := Num 0\<rparr>,
      player_d\<lparr>REB := Num 7.5, FG3_PCT := Num 0.1\<rparr>]"

section \<open>Columns and their lengths\<close>

lemma length_norm_series [simp]: "length (norm_series xs) = length xs"
  by (simp add: norm_series_def)

lemma norm_denominator_pos:
  fixes xs :: "real list"
  assumes "xs \<noteq> []"
  shows "0 < Max (set xs) - Min (set xs) + 1 / 1000000000"
proof -
  have "Min (set xs) \<le> Max (set xs)"
    using assms by (simp add: Min_le_iff)
  then show ?thesis by simp
qed



lemma length_scoring_col [simp]: "length (scoring_col df) = length df"
  by (simp add: scoring_col_def)
lemma length_playmaking_col [simp]: "length (playmaking_col df) = length df"
  by (simp add: playmaking_col_def)
lemma length_discipline_col [simp]: "length (discipline_col df) = length df"
  by (simp add: discipline_col_def)
lemma length_impact_raw_col [simp]: "length (impact_raw_col df) = length df"
  by (simp add: impact_raw_col_def)
lemma length_luck_factor_col [simp]: "length (luck_factor_col df) = length df"
  by (simp add: luck_factor_col_def)
lemma length_tier_col [simp]: "length (tier_col df) = length df"
  by (simp add: tier_col_def Let_def)
lemma length_out_rows [simp]: "length (out_rows df) = length df"
  by (simp add: out_rows_def)

lemma out_rows_nth:
  assumes "i < length df"
  shows "out_rows df ! i =
     \<lparr>player_name = PLAYER_NAME (df ! i), height_m = 2, weight_kg = 100,
      scoring = scoring_col df ! i, playmaking = playmaking_col df ! i,
      discipline = discipline_col df ! i, luck_factor = luck_factor_col df ! i,
      tier = tier_col df ! i\<rparr>"
  using assms by (simp add: out_rows_def)



section \<open>The surviving rows\<close>

lemma GP_select_cols: "GP (select_cols r) = GP r"
  by (simp add: select_cols_def)

lemma surviving_Nil [simp]: "surviving [] = []"
  by (simp add: surviving_def gp_filter_def dropna_def map_filter_simps)

lemma surviving_Cons:
  "surviving (r # rs) =
     (if 15 \<le> GP r
      then (case notna_row (coerce_row (select_cols r)) of
              None \<Rightarrow> surviving rs | Some s \<Rightarrow> s # surviving rs)
      else surviving rs)"
  by (simp add: surviving_def gp_filter_def dropna_def map_filter_simps GP_select_cols
      split: option.splits)

lemma surviving_append: "surviving (xs @ ys) = surviving xs @ surviving ys"
  by (induction xs) (simp_all add: surviving_Cons split: option.splits)

lemma notna_row_None_iff:
  "notna_row (coerce_row (select_cols r)) = None \<longleftrightarrow>
     to_numeric (PTS r) = None \<or> to_numeric (REB r) = None \<or> to_numeric (AST r) = None \<or>
     to_numeric (TOV r) = None \<or> to_numeric (FG_PCT r) = None \<or> to_numeric (FG3_PCT r) = None"
  by (simp add: notna_row_def coerce_row_def select_cols_def split: option.splits)

lemma notna_row_Some:
  assumes "notna_row (coerce_row (select_cols r)) = Some s"
  shows "PLAYER_NAME s = PLAYER_NAME r \<and> GP s = GP r \<and>
         to_numeric (PTS r) = Some (PTS s) \<and> to_numeric (REB r) = Some (REB s) \<and>
         to_numeric (AST r) = Some (AST s) \<and> to_numeric (TOV r) = Some (TOV s) \<and>
         to_numeric (FG_PCT r) = Some (FG_PCT s) \<and> to_numeric (FG3_PCT r) = Some (FG3_PCT s)"
  using assms by (auto simp: notna_row_def coerce_row_def select_cols_def split: option.splits)

lemma surviving_gp: "s \<in> set (surviving raw) \<Longrightarrow> 15 \<le> GP s"
proof (induction raw)
  case Nil
  then show ?case by simp
next
  case (Cons r rs)
  then show ?case
    by (auto simp: surviving_Cons dest: notna_row_Some split: if_splits option.splits)
qed

lemma surviving_filter_gp: "surviving (filter (\<lambda>r. 15 \<le> GP r) raw) = surviving raw"
  by (induction raw) (simp_all add: surviving_Cons split: option.splits)

lemma surviving_names:
  "map PLAYER_NAME (surviving raw) =
     map PLAYER_NAME (filter (\<lambda>r. 15 \<le> GP r \<and> all_numeric r) raw)"
  by (induction raw)
     (auto simp: surviving_Cons all_numeric_def dest: notna_row_Some split: option.splits)

lemma map_player_name_out_rows: "map player_name (out_rows df) = map PLAYER_NAME df"
  by (rule nth_equalityI) (simp_all add: out_rows_nth)

lemma map_scoring_out_rows: "map scoring (out_rows df) = scoring_col df"
  by (rule nth_equalityI) (simp_all add: out_rows_nth)
lemma map_playmaking_out_rows: "map playmaking (out_rows df) = playmaking_col df"
  by (rule nth_equalityI) (simp_all add: out_rows_nth)
lemma map_discipline_out_rows: "map discipline (out_rows df) = discipline_col df"
  by (rule nth_equalityI) (simp_all add: out_rows_nth)
lemma map_luck_factor_out_rows: "map luck_factor (out_rows df) = luck_factor_col df"
  by (rule nth_equalityI) (simp_all add: out_rows_nth)
lemma map_tier_out_rows: "map tier (out_rows df) = tier_col df"
  by (rule nth_equalityI) (simp_all add: out_rows_nth)


lemma out_rows_cong:
  assumes "map (\<lambda>r. (PLAYER_NAME r, PTS r, AST r, TOV r, FG_PCT r)) df =
           map (\<lambda>r. (PLAYER_NAME r, PTS r, AST r, TOV r, FG_PCT r)) df'"
  shows "out_rows df = out_rows df'"
proof -
  let ?core = "\<lambda>r::real stat_row. (PLAYER_NAME r, PTS r, AST r, TOV r, FG_PCT r)"
  have len: "length df = length df'"
    using assms by (rule map_eq_imp_length_eq)
  have "map ((\<lambda>(n, p, a, t, f). p + 5 * f) \<circ> ?core) df =
        map ((\<lambda>(n, p, a, t, f). p + 5 * f) \<circ> ?core) df'"
    using assms by (simp only: map_map [symmetric])
  then have s: "scoring_col df = scoring_col df'"
    by (simp add: scoring_col_def comp_def)
  have "map ((\<lambda>(n, p, a, t, f). a - 0.5 * t) \<circ> ?core) df =
        map ((\<lambda>(n, p, a, t, f). a - 0.5 * t) \<circ> ?core) df'"
    using assms by (simp only: map_map [symmetric])
  then have p: "playmaking_col df = playmaking_col df'"
    by (simp add: playmaking_col_def comp_def)
  have "map ((\<lambda>(n, p, a, t, f). - t) \<circ> ?core) df =
        map ((\<lambda>(n, p, a, t, f). - t) \<circ> ?core) df'"
    using assms by (simp only: map_map [symmetric])
  then have d: "discipline_col df = discipline_col df'"
    by (simp add: discipline_col_def comp_def)
  have "map ((\<lambda>(n, p, a, t, f). n) \<circ> ?core) df =
        map ((\<lambda>(n, p, a, t, f). n) \<circ> ?core) df'"
    using assms by (simp only: map_map [symmetric])
  then have n: "map PLAYER_NAME df = map PLAYER_NAME df'"
    by (simp add: comp_def)
  have i: "impact_raw_col df = impact_raw_col df'"
    by (simp add: impact_raw_col_def s p d len)
  have l: "luck_factor_col df = luck_factor_col df'"
    by (simp add: luck_factor_col_def i)
  have t: "tier_col df = tier_col df'"
    by (simp add: tier_col_def i)
  have nm: "PLAYER_NAME (df ! k) = PLAYER_NAME (df' ! k)" if "k < length df'" for k
  proof -
    have "map PLAYER_NAME df ! k = map PLAYER_NAME df' ! k" by (simp only: n)
    then show ?thesis using that len by simp
  qed
  show ?thesis
    by (simp add: out_rows_def s p d l t len nm)
qed

lemma surviving_reb_fg3:
  assumes "list_all2 (\<lambda>a b. b = a\<lparr>REB := REB b, FG3_PCT := FG3_PCT b\<rparr> \<and>
                 to_numeric (REB a) \<noteq> None \<and> to_numeric (REB b) \<noteq> None \<and>
                 to_numeric (FG3_PCT a) \<noteq> None \<and> to_numeric (FG3_PCT b) \<noteq> None) xs ys"
  shows "map (\<lambda>r. (PLAYER_NAME r, PTS r, AST r, TOV r, FG_PCT r)) (surviving xs) =
         map (\<lambda>r. (PLAYER_NAME r, PTS r, AST r, TOV r, FG_PCT r)) (surviving ys)"
  using assms
proof (induction rule: list_all2_induct)
  case Nil
  then show ?case by simp
next
  case (Cons a xs b ys)
  from Cons.hyps(1) have b: "b = a\<lparr>REB := REB b, FG3_PCT := FG3_PCT b\<rparr>"
    and ra: "to_numeric (REB a) \<noteq> None" and rb: "to_numeric (REB b) \<noteq> None"
    and fa: "to_numeric (FG3_PCT a) \<noteq> None" and fb: "to_numeric (FG3_PCT b) \<noteq> None"
    by blast+
  have same: "PLAYER_NAME b = PLAYER_NAME a" "GP b = GP a" "PTS b = PTS a" "AST b = AST a"
    "TOV b = TOV a" "FG_PCT b = FG_PCT a"
    by (subst b, simp)+
  have none: "notna_row (coerce_row (select_cols a)) = None \<longleftrightarrow>
              notna_row (coerce_row (select_cols b)) = None"
    using ra rb fa fb by (auto simp: notna_row_None_iff same)
  show ?case
  proof (cases "notna_row (coerce_row (select_cols a))")
    case None
    then show ?thesis using none Cons.IH by (simp add: surviving_Cons same)
  next
    case (Some s)
    then obtain t where t: "notna_row (coerce_row (select_cols b)) = Some t"
      using none by auto
    have "Some (PTS s) = Some (PTS t)" "Some (AST s) = Some (AST t)"
      "Some (TOV s) = Some (TOV t)" "Some (FG_PCT s) = Some (FG_PCT t)"
      "PLAYER_NAME s = PLAYER_NAME t"
      using notna_row_Some [OF Some] notna_row_Some [OF t] by (simp_all add: same)
    then show ?thesis using Some t Cons.IH by (simp add: surviving_Cons same)
  qed
qed


section \<open>Quantiles are monotone in the level\<close>

text \<open>
  The interpolated value at position \<open>h\<close> of a sorted series lies between its two
  neighbours, and grows with \<open>h\<close>; hence the 20th percentile never exceeds the 80th.
\<close>

lemma interp_bounds:
  fixes s :: "real list"
  assumes srt: "sorted s" and h0: "0 \<le> h" and hn: "h \<le> real (length s - 1)"
    and ne: "s \<noteq> []"
  defines "lo \<equiv> nat \<lfloor>h\<rfloor>"
  defines "hi \<equiv> min (lo + 1) (length s - 1)"
  shows "lo < length s" and "hi < length s" and "lo \<le> hi"
    and "s ! lo \<le> s ! lo + (h - real lo) * (s ! hi - s ! lo)"
    and "s ! lo + (h - real lo) * (s ! hi - s ! lo) \<le> s ! hi"
proof -
  have len: "0 < length s" using ne by simp
  have fl: "real lo \<le> h" unfolding lo_def using h0 by simp
  have fu: "h < real lo + 1" unfolding lo_def using h0 by linarith
  have "real lo \<le> real (length s - 1)" using fl hn by linarith
  then have lo_le: "lo \<le> length s - 1" by simp
  then show lo: "lo < length s" using len by linarith
  show hi: "hi < length s" unfolding hi_def using len by linarith
  show lh: "lo \<le> hi" unfolding hi_def using lo_le by simp
  have d: "s ! lo \<le> s ! hi" using srt lh hi by (simp add: sorted_nth_mono)
  have f0: "0 \<le> h - real lo" using fl by simp
  have f1: "h - real lo \<le> 1" using fu by simp
  show "s ! lo \<le> s ! lo + (h - real lo) * (s ! hi - s ! lo)"
    using d f0 by simp
  have "(h - real lo) * (s ! hi - s ! lo) \<le> 1 * (s ! hi - s ! lo)"
    using d f1 by (intro mult_right_mono) simp_all
  then show "s ! lo + (h - real lo) * (s ! hi - s ! lo) \<le> s ! hi" by simp
qed

lemma interp_mono:
  fixes s :: "real list"
  assumes srt: "sorted s" and ne: "s \<noteq> []"
    and h0: "0 \<le> h" and hk: "h \<le> k" and kn: "k \<le> real (length s - 1)"
  shows "s ! nat \<lfloor>h\<rfloor> + (h - real (nat \<lfloor>h\<rfloor>)) *
           (s ! min (nat \<lfloor>h\<rfloor> + 1) (length s - 1) - s ! nat \<lfloor>h\<rfloor>)
         \<le> s ! nat \<lfloor>k\<rfloor> + (k - real (nat \<lfloor>k\<rfloor>)) *
           (s ! min (nat \<lfloor>k\<rfloor> + 1) (length s - 1) - s ! nat \<lfloor>k\<rfloor>)"
proof -
  let ?lo = "nat \<lfloor>h\<rfloor>" and ?lo' = "nat \<lfloor>k\<rfloor>"
  let ?hi = "min (?lo + 1) (length s - 1)" and ?hi' = "min (?lo' + 1) (length s - 1)"
  have k0: "0 \<le> k" using h0 hk by simp
  have hn: "h \<le> real (length s - 1)" using hk kn by simp
  note H = interp_bounds [OF srt h0 hn ne]
  note K = interp_bounds [OF srt k0 kn ne]
  have lole: "?lo \<le> ?lo'" using hk by (simp add: floor_mono nat_mono)
  show ?thesis
  proof (cases "?lo = ?lo'")
    case True
    have d: "0 \<le> s ! ?hi - s ! ?lo"
      using srt H(2) H(3) by (simp add: sorted_nth_mono)
    have "(h - real ?lo) * (s ! ?hi - s ! ?lo) \<le> (k - real ?lo) * (s ! ?hi - s ! ?lo)"
      using d hk by (intro mult_right_mono) simp_all
    then show ?thesis using True by simp
  next
    case False
    then have lt: "?lo + 1 \<le> ?lo'" using lole by simp
    have "?hi \<le> ?lo'" using lt by simp
    then have mid: "s ! ?hi \<le> s ! ?lo'"
      using srt K(1) by (simp add: sorted_nth_mono)
    show ?thesis using H(5) mid K(4) by linarith
  qed
qed

lemma quantile_mono:
  assumes "0 \<le> p" and "p \<le> q" and "q \<le> 1"
    and "quantile p xs = Some a" and "quantile q xs = Some b"
  shows "a \<le> b"
proof -
  from assms(4) have ne: "xs \<noteq> []" by (auto simp: quantile_def split: if_splits)
  let ?s = "sort xs"
  let ?n = "real (length ?s - 1)"
  have sne: "?s \<noteq> []" using ne by (metis length_sort length_0_conv)
  have srt: "sorted ?s" by simp
  have h0: "0 \<le> ?n * p" using assms(1) by simp
  have hk: "?n * p \<le> ?n * q" using assms(2) by (intro mult_left_mono) simp_all
  have "?n * q \<le> ?n * 1" using assms(3) by (intro mult_left_mono) simp_all
  then have kn: "?n * q \<le> ?n" by simp
  have a: "a = ?s ! nat \<lfloor>?n * p\<rfloor> + (?n * p - real (nat \<lfloor>?n * p\<rfloor>)) *
           (?s ! min (nat \<lfloor>?n * p\<rfloor> + 1) (length ?s - 1) - ?s ! nat \<lfloor>?n * p\<rfloor>)"
    using assms(4) ne by (simp add: quantile_def Let_def)
  have b: "b = ?s ! nat \<lfloor>?n * q\<rfloor> + (?n * q - real (nat \<lfloor>?n * q\<rfloor>)) *
           (?s ! min (nat \<lfloor>?n * q\<rfloor> + 1) (length ?s - 1) - ?s ! nat \<lfloor>?n * q\<rfloor>)"
    using assms(5) ne by (simp add: quantile_def Let_def)
  show ?thesis unfolding a b by (rule interp_mono [OF srt sne h0 hk kn])
qed

text \<open>
  The tier example of the specification: on the impact values 1 to 10 the thresholds are
  2.8 and 8.2.
\<close>

lemma tier_example:
  "quantile 0.2 [1, 2, 3, 4, 5, 6, 7, 8, 9, 10] = Some 2.8 \<and>
   quantile 0.8 [1, 2, 3, 4, 5, 6, 7, 8, 9, 10] = Some 8.2 \<and>
   map (tier_row (Some 2.8) (Some 8.2)) [1, 2, 3, 4, 5, 6, 7, 8, 9, 10] =
     [bust, bust, role_player, role_player, role_player, role_player, role_player,
      role_player, star, star]"
  by code_simp

section \<open>Properties of the specification\<close>



text \<open>
  C2, as stated, fails on a batch with a single surviving row: its impact score is at the
  80th percentile (both percentiles are the score itself), yet its tier is \<open>bust\<close>, because
  \<^verbatim>\<open>tier_row\<close> tests the lower threshold first.
\<close>

theorem tier_star_counterexample:
  "ge_nan (impact_raw_col (surviving single_row_table) ! 0)
          (quantile 0.8 (impact_raw_col (surviving single_row_table)))
   \<and> tier (transform single_row_table ! 0) \<noteq> star"
  by code_simp

text \<open>
  C2, amended.  On a non-empty batch both percentiles \<open>q20\<close> and \<open>q80\<close> of the impact
  column exist, with \<open>q20 \<le> q80\<close>, and each row gets exactly one tier: \<open>bust\<close> when its
  impact score is at or below \<open>q20\<close>; otherwise \<open>star\<close> when it is at or above \<open>q80\<close>;
  otherwise \<open>role_player\<close>.
\<close>

theorem tier_assignment:
  assumes "i < length (surviving raw)"
  shows "\<exists>q20 q80.
           quantile 0.2 (impact_raw_col (surviving raw)) = Some q20 \<and>
           quantile 0.8 (impact_raw_col (surviving raw)) = Some q80 \<and>
           q20 \<le> q80 \<and>
           tier (transform raw ! i) =
             (if impact_raw_col (surviving raw) ! i \<le> q20 then bust
              else if impact_raw_col (surviving raw) ! i \<ge> q80 then star
              else role_player)"
proof -
  let ?imp = "impact_raw_col (surviving raw)"
  have "length ?imp = length (surviving raw)" by simp
  with assms have ne: "?imp \<noteq> []" by (cases ?imp) simp_all
  obtain q20 where q20: "quantile 0.2 ?imp = Some q20"
    using ne by (simp add: quantile_def Let_def)
  obtain q80 where q80: "quantile 0.8 ?imp = Some q80"
    using ne by (simp add: quantile_def Let_def)
  have le: "q20 \<le> q80"
    by (rule quantile_mono [OF _ _ _ q20 q80]) simp_all
  have "tier (transform raw ! i) = tier_row (Some q20) (Some q80) (?imp ! i)"
    using assms q20 q80
    by (simp add: transform_def out_rows_nth tier_col_def Let_def)
  then have "tier (transform raw ! i) =
             (if ?imp ! i \<le> q20 then bust else if ?imp ! i \<ge> q80 then star
              else role_player)"
    by (simp add: tier_row_def)
  with q20 q80 le show ?thesis by blast
qed

theorem tier_assignment_witness:
  "1 < length (surviving example_table) \<and>
   (\<exists>q20 q80.
      quantile 0.2 (impact_raw_col (surviving example_table)) = Some q20 \<and>
      quantile 0.8 (impact_raw_col (surviving example_table)) = Some q80 \<and>
      q20 \<le> q80 \<and>
      tier (transform example_table ! 1) =
        (if impact_raw_col (surviving example_table) ! 1 \<le> q20 then bust
         else if impact_raw_col (surviving example_table) ! 1 \<ge> q80 then star
         else role_player))"
proof -
  have h: "1 < length (surviving example_table)" by code_simp
  show ?thesis using h tier_assignment [OF h] by blast
qed

text \<open>
  C3.  On a non-empty column \<^verbatim>\<open>norm\<close> maps each value \<open>v\<close> to
  \<open>(v - min) / (max - min + 1e-9)\<close> with the column's own minimum and maximum; the
  divisor is positive, so no division by zero occurs; and on a column whose values are all
  equal every output is 0.
\<close>

theorem norm_series_spec:
  fixes series :: "real list"
  assumes "series \<noteq> []"
  shows "norm_series series =
           map (\<lambda>v. (v - Min (set series)) /
                     (Max (set series) - Min (set series) + 1 / 1000000000)) series
         \<and> 0 < Max (set series) - Min (set series) + 1 / 1000000000
         \<and> ((\<forall>v \<in> set series. v = c) \<longrightarrow> (\<forall>y \<in> set (norm_series series). y = 0))"
proof (intro conjI impI)
  show "norm_series series =
           map (\<lambda>v. (v - Min (set series)) /
                     (Max (set series) - Min (set series) + 1 / 1000000000)) series"
    using assms by (simp add: norm_series_def)
  show "0 < Max (set series) - Min (set series) + 1 / 1000000000"
    by (rule norm_denominator_pos [OF assms])
next
  assume eq: "\<forall>v \<in> set series. v = c"
  have "set series = {c}" using assms eq by (cases series) auto
  then have mc: "Min (set series) = c" by simp
  show "\<forall>y \<in> set (norm_series series). y = 0"
  proof
    fix y assume "y \<in> set (norm_series series)"
    then obtain v where v: "v \<in> set series"
      and y: "y = (v - Min (set series)) /
                  (Max (set series) - Min (set series) + 1 / 1000000000)"
      using assms by (auto simp: norm_series_def)
    from v eq have "v = c" by blast
    then show "y = 0" using y mc by simp
  qed
qed

theorem norm_series_spec_witness:
  "[10, 10, 10] \<noteq> ([] :: real list) \<and> norm_series [10, 10, 10] = [0, 0, 0]"
proof -
  have ne: "[10, 10, 10] \<noteq> ([] :: real list)" by simp
  have eq: "\<forall>v \<in> set [10, 10, 10 :: real]. v = 10" by simp
  have "\<forall>y \<in> set (norm_series [10, 10, 10]). y = 0"
    using eq norm_series_spec [OF ne, of 10] by blast
  then have "replicate (length (norm_series [10, 10, 10])) 0 = norm_series [10, 10, 10]"
    by (rule replicate_length_same)
  then have "norm_series [10, 10, 10] = [0, 0, 0]"
    by (simp add: eval_nat_numeral)
  then show ?thesis using ne by blast
qed

text \<open>
  C4.  The emitted columns are \<open>scoring = norm (PTS + 5 * FG_PCT)\<close>,
  \<open>playmaking = norm (AST - 0.5 * TOV)\<close>, \<open>discipline = norm (- TOV)\<close> and
  \<open>luck_factor = norm impact_raw\<close>, every \<open>norm\<close> taken over the surviving batch; the luck
  factor is a function of the impact column and nothing else.
\<close>

theorem derived_attributes:
  "map scoring (transform raw) =
     norm_series (map (\<lambda>r. PTS r + 5 * FG_PCT r) (surviving raw))
   \<and> map playmaking (transform raw) =
     norm_series (map (\<lambda>r. AST r - 0.5 * TOV r) (surviving raw))
   \<and> map discipline (transform raw) = norm_series (map (\<lambda>r. - TOV r) (surviving raw))
   \<and> map luck_factor (transform raw) = norm_series (impact_raw_col (surviving raw))"
  by (simp add: transform_def map_scoring_out_rows map_playmaking_out_rows
      map_discipline_out_rows map_luck_factor_out_rows scoring_col_def playmaking_col_def
      discipline_col_def luck_factor_col_def)



text \<open>
  C6.  Every surviving row has at least 15 games played, and rows with fewer games have no
  influence on the processed table; of three rows with 10, 20 and 30 games played and
  numeric statistic cells exactly the second and the third survive.
\<close>

theorem volume_filter:
  "(\<forall>s \<in> set (surviving raw). 15 \<le> GP s)
   \<and> transform raw = transform (filter (\<lambda>r. 15 \<le> GP r) raw)
   \<and> (GP a = 10 \<and> GP b = 20 \<and> GP c = 30 \<and> all_numeric a \<and> all_numeric b \<and> all_numeric c
        \<longrightarrow> map (\<lambda>s. (PLAYER_NAME s, GP s)) (surviving [a, b, c]) =
              [(PLAYER_NAME b, 20), (PLAYER_NAME c, 30)])"
proof (intro conjI impI ballI)
  fix s assume "s \<in> set (surviving raw)"
  then show "15 \<le> GP s" by (rule surviving_gp)
next
  show "transform raw = transform (filter (\<lambda>r. 15 \<le> GP r) raw)"
    by (simp add: transform_def surviving_filter_gp)
next
  assume h: "GP a = 10 \<and> GP b = 20 \<and> GP c = 30 \<and> all_numeric a \<and> all_numeric b \<and> all_numeric c"
  then obtain sb sc where
    sb: "notna_row (coerce_row (select_cols b)) = Some sb" and
    sc: "notna_row (coerce_row (select_cols c)) = Some sc"
    by (auto simp: all_numeric_def)
  have "surviving [a, b, c] = [sb, sc]"
    using h sb sc by (simp add: surviving_Cons)
  then show "map (\<lambda>s. (PLAYER_NAME s, GP s)) (surviving [a, b, c]) =
              [(PLAYER_NAME b, 20), (PLAYER_NAME c, 30)]"
    using notna_row_Some [OF sb] notna_row_Some [OF sc] h by simp
qed

theorem volume_filter_witness:
  "GP games_10 = 10 \<and> GP games_20 = 20 \<and> GP games_30 = 30 \<and>
   all_numeric games_10 \<and> all_numeric games_20 \<and> all_numeric games_30 \<and>
   map (\<lambda>s. (PLAYER_NAME s, GP s)) (surviving [games_10, games_20, games_30]) =
     [(PLAYER_NAME games_20, 20), (PLAYER_NAME games_30, 30)]"
proof -
  have h: "GP games_10 = 10 \<and> GP games_20 = 20 \<and> GP games_30 = 30 \<and>
           all_numeric games_10 \<and> all_numeric games_20 \<and> all_numeric games_30"
    by (simp add: games_10_def games_20_def games_30_def player_a_def player_b_def
        player_d_def all_numeric_def notna_row_def coerce_row_def select_cols_def)
  show ?thesis
    using h volume_filter [of "[games_10, games_20, games_30]" games_10 games_20 games_30]
    by blast
qed

text \<open>
  C7.  A row that passes the volume filter and has a statistic cell that cannot be read as
  a number is dropped as a whole: the processed table is the one obtained without that
  row, and no error value arises.
\<close>

theorem malformed_row_dropped:
  assumes "15 \<le> GP r"
    and "to_numeric (PTS r) = None \<or> to_numeric (REB r) = None \<or> to_numeric (AST r) = None \<or>
         to_numeric (TOV r) = None \<or> to_numeric (FG_PCT r) = None \<or> to_numeric (FG3_PCT r) = None"
  shows "transform (xs @ r # ys) = transform (xs @ ys)"
proof -
  have "notna_row (coerce_row (select_cols r)) = None"
    using assms(2) by (simp only: notna_row_None_iff)
  then have "surviving (r # ys) = surviving ys"
    by (simp add: surviving_Cons)
  then show ?thesis
    by (simp add: transform_def surviving_append)
qed

theorem malformed_row_dropped_witness:
  "15 \<le> GP player_b \<and> to_numeric (FG3_PCT player_b) = None \<and>
   transform ([player_a] @ player_b # [player_c, player_d]) =
   transform ([player_a] @ [player_c, player_d])"
proof -
  have g: "15 \<le> GP player_b" by (simp add: player_b_def)
  have m: "to_numeric (FG3_PCT player_b) = None" by (simp add: player_b_def)
  show ?thesis
    using g m malformed_row_dropped [of player_b "[player_a]" "[player_c, player_d]"]
    by blast
qed

text \<open>
  C8.  On a fetched table without rows the pipeline yields the processed table without
  rows, and both files are written.
\<close>

theorem empty_table:
  "transform [] = [] \<and> main [] = \<lparr>players_raw_csv = [], players_processed_csv = []\<rparr>"
  by (simp add: main_def transform_def out_rows_def)

text \<open>
  C9.  The raw dump is the fetched table, row for row, whatever the later steps remove;
  the processed file holds, in order, exactly the rows with at least 15 games played and
  six numeric statistic cells.
\<close>

theorem raw_dump_unchanged:
  "players_raw_csv (main fetched) = fetched
   \<and> players_processed_csv (main fetched) = transform fetched
   \<and> map player_name (players_processed_csv (main fetched)) =
       map PLAYER_NAME (filter (\<lambda>r. 15 \<le> GP r \<and> all_numeric r) fetched)"
  by (simp add: main_def transform_def map_player_name_out_rows surviving_names)

theorem raw_dump_unchanged_witness:
  "GP player_c = 5 \<and> player_c \<in> set (players_raw_csv (main example_table)) \<and>
   map player_name (players_processed_csv (main example_table)) = [''A'', ''D'']"
proof -
  have f: "map PLAYER_NAME (filter (\<lambda>r. 15 \<le> GP r \<and> all_numeric r) example_table) =
          [''A'', ''D'']"
    by (simp add: example_table_def player_a_def player_b_def player_c_def player_d_def
        all_numeric_def notna_row_def coerce_row_def select_cols_def)
  have g: "GP player_c = 5" by (simp add: player_c_def)
  have m: "player_c \<in> set example_table" by (simp add: example_table_def)
  from raw_dump_unchanged [of example_table]
  have r: "players_raw_csv (main example_table) = example_table"
    and p: "map player_name (players_processed_csv (main example_table)) =
       map PLAYER_NAME (filter (\<lambda>r. 15 \<le> GP r \<and> all_numeric r) example_table)"
    by blast+
  show ?thesis unfolding r p using g m f by blast
qed

text \<open>
  C10.  Two fetched tables that differ at most in the \<open>REB\<close> and \<open>FG3_PCT\<close> cells of
  their rows, these cells being numbers in both tables, have the same processed table.
\<close>

theorem reb_fg3_no_influence:
  assumes "list_all2 (\<lambda>a b. b = a\<lparr>REB := REB b, FG3_PCT := FG3_PCT b\<rparr> \<and>
                 to_numeric (REB a) \<noteq> None \<and> to_numeric (REB b) \<noteq> None \<and>
                 to_numeric (FG3_PCT a) \<noteq> None \<and> to_numeric (FG3_PCT b) \<noteq> None) xs ys"
  shows "transform xs = transform ys"
  unfolding transform_def by (rule out_rows_cong) (rule surviving_reb_fg3 [OF assms])

theorem reb_fg3_no_influence_witness:
  "list_all2 (\<lambda>a b. b = a\<lparr>REB := REB b, FG3_PCT := FG3_PCT b\<rparr> \<and>
                 to_numeric (REB a) \<noteq> None \<and> to_numeric (REB b) \<noteq> None \<and>
                 to_numeric (FG3_PCT a) \<noteq> None \<and> to_numeric (FG3_PCT b) \<noteq> None)
     numeric_table numeric_table_variant \<and>
   numeric_table \<noteq> numeric_table_variant \<and>
   transform numeric_table = transform numeric_table_variant"
proof -
  have h: "list_all2 (\<lambda>a b. b = a\<lparr>REB := REB b, FG3_PCT := FG3_PCT b\<rparr> \<and>
                 to_numeric (REB a) \<noteq> None \<and> to_numeric (REB b) \<noteq> None \<and>
                 to_numeric (FG3_PCT a) \<noteq> None \<and> to_numeric (FG3_PCT b) \<noteq> None)
     numeric_table numeric_table_variant"
    by (simp add: numeric_table_def numeric_table_variant_def player_a_def player_c_def
        player_d_def del: not_None_eq)
  have d: "numeric_table \<noteq> numeric_table_variant"
    by (simp add: numeric_table_def numeric_table_variant_def player_a_def)
  show ?thesis using h d reb_fg3_no_influence [OF h] by blast
qed

end
